theory Spec2Isabelle
  imports Complex_Main "HOL-Library.Product_Lexorder" "HOL-Library.Multiset"
begin

section \<open>Values that cross the HTTP boundary\<close>

text \<open>
  The handlers of \<^verbatim>\<open>server.js\<close> read JavaScript values out of \<^verbatim>\<open>req.query\<close>,
  \<^verbatim>\<open>req.params\<close>, \<^verbatim>\<open>req.headers\<close> and \<^verbatim>\<open>req.body\<close>. A value that is present is a
  \<open>jsval\<close>; \<^verbatim>\<open>undefined\<close> (a missing property) is \<open>None\<close>. Numbers are the finite
  doubles that \<^verbatim>\<open>JSON.parse\<close> produces, read as reals; no property below depends on rounding.
\<close>

datatype jsval =
    JNull
  | JBool bool
  | JNum real
  | JStr string
  | JArr "jsval list"
  | JObj "(string \<times> jsval) list"

text \<open>
  JavaScript truthiness, the test behind \<^verbatim>\<open>!x\<close>: \<^verbatim>\<open>undefined\<close>, \<^verbatim>\<open>null\<close>, \<^verbatim>\<open>false\<close>,
  \<^verbatim>\<open>0\<close> and the empty string are falsy; every array and object is truthy.
\<close>

fun truthy :: "jsval option \<Rightarrow> bool" where
  "truthy None = False"
| "truthy (Some JNull) = False"
| "truthy (Some (JBool b)) = b"
| "truthy (Some (JNum n)) = (n \<noteq> 0)"
| "truthy (Some (JStr s)) = (s \<noteq> [])"
| "truthy (Some (JArr xs)) = True"
| "truthy (Some (JObj kvs)) = True"

text \<open>
  A value of \<^verbatim>\<open>req.query\<close>, as the query-string parser of the framework builds it: a
  string, an array (a repeated key) or an object (a bracketed key); never \<^verbatim>\<open>null\<close>, a
  boolean or a number.
\<close>

datatype qsval =
    QStr string
  | QArr "qsval list"
  | QObj "(string \<times> qsval) list"

fun js_of_qs :: "qsval \<Rightarrow> jsval" where
  "js_of_qs (QStr s) = JStr s"
| "js_of_qs (QArr xs) = JArr (map js_of_qs xs)"
| "js_of_qs (QObj kvs) = JObj (map (map_prod id js_of_qs) kvs)"

text \<open>
  The request, as the handlers see it: the header map (names in lower case), the parsed
  query string, the path parameters and \<^verbatim>\<open>req.body\<close>. The body is the object that
  \<^verbatim>\<open>express.json()\<close> parsed, whose missing properties read as \<^verbatim>\<open>undefined\<close>; when no
  body was parsed it is the empty object or, where the framework leaves \<^verbatim>\<open>req.body\<close>
  unset, \<^verbatim>\<open>undefined\<close> itself (\<open>None\<close>). The version of the framework is not part of
  the repository, so both are requests of the model.
\<close>

record request =
  headers :: "string \<rightharpoonup> string"
  query :: "string \<rightharpoonup> qsval"
  params :: "string \<rightharpoonup> string"
  body :: "(string \<rightharpoonup> jsval) option"

text \<open>\<^verbatim>\<open>process.env\<close>: the only variable the handlers read is \<^verbatim>\<open>ADMIN_KEY\<close>.\<close>

record env =
  ADMIN_KEY :: "string option"

text \<open>
  A response is the status code with its JSON payload: \<^verbatim>\<open>res.status(c).json({error: m})\<close>
  is \<open>(c, Error m)\<close>, \<^verbatim>\<open>res.json(v)\<close> is \<open>(200, Json v)\<close>. An exception that leaves a
  handler outside its \<^verbatim>\<open>try\<close> is answered by the error handler of the framework, with
  status 500 and none of the handler's payloads: \<open>(500, Uncaught name)\<close>.
\<close>

datatype 'a payload = Error string | Json 'a | Uncaught string

type_synonym 'a response = "nat \<times> 'a payload"

section \<open>The store\<close>

text \<open>
  A geography point stores the pair in the order (X, Y) = (longitude, latitude). The
  field selectors are the decoders \<^verbatim>\<open>ST_X\<close> and \<^verbatim>\<open>ST_Y\<close> of the queries.
\<close>

record point =
  ST_X :: real
  ST_Y :: real

definition ST_MakePoint :: "real \<Rightarrow> real \<Rightarrow> point" where
  "ST_MakePoint x y = \<lparr>ST_X = x, ST_Y = y\<rparr>"

text \<open>
  The three tables, with the columns the queries name. Column selectors carry the
  table alias of the SQL text (\<^verbatim>\<open>l.id\<close> is \<open>l_id\<close>, \<^verbatim>\<open>li.id\<close> is \<open>li_id\<close>, \<^verbatim>\<open>u.id\<close> is
  \<open>u_id\<close>). The identifier type is left open: the schema is not part of the repository.
  The flags are two-valued and every listing has a point; \<^verbatim>\<open>description\<close> and
  \<^verbatim>\<open>location_name\<close>, which the creation may leave out, can be NULL.
\<close>

record 'id listing =
  l_id :: 'id
  l_host_id :: 'id
  l_title :: string
  l_description :: "string option"
  l_price_kes :: int
  l_location :: point
  l_location_name :: "string option"
  l_is_active :: bool
  l_is_featured :: bool

record 'id listing_image =
  li_id :: 'id
  li_listing_id :: 'id
  li_image_url :: string

record 'id user =
  u_id :: 'id
  u_name :: string
  u_phone :: string
  u_whatsapp :: string

text \<open>The four statements the handlers send through \<^verbatim>\<open>pool.query\<close>.\<close>

datatype statement = SELECT_nearby | SELECT_listing | SELECT_images | INSERT_listing

text \<open>
  The state of the store: the tables, the number of identities the listings table has
  handed out, and the log of statements executed so far. A handler that leaves the whole
  record unchanged has neither written a row nor sent a query.
\<close>

record 'id db =
  listings :: "'id listing list"
  listing_images :: "'id listing_image list"
  users :: "'id user list"
  listings_seq :: nat
  executed :: "statement list"

datatype db_error = Invalid_text_representation | Constraint_violation

text \<open>
  What PostgreSQL and PostGIS contribute and the repository does not contain is taken as
  a parameter: the input conversions of the column types (a parameter that does not
  convert makes the statement fail), the cast to geography, the distance function, the
  column defaults and the table constraints of \<^verbatim>\<open>listings\<close>.
\<close>

record 'id postgres =
  id_in :: "jsval \<Rightarrow> 'id option"
  text_in :: "jsval \<Rightarrow> string option"
  int_in :: "jsval \<Rightarrow> int option"
  float8_in :: "jsval \<Rightarrow> real option"
  geography :: "point \<Rightarrow> point option"
  ST_Distance :: "point \<Rightarrow> point \<Rightarrow> real"
  default_id :: "nat \<Rightarrow> 'id"
  default_is_active :: bool
  default_is_featured :: bool
  listings_constraints :: "'id db \<Rightarrow> 'id listing \<Rightarrow> bool"

text \<open>
  Modelled from the spec: the within-radius test \<^verbatim>\<open>ST_DWithin\<close> of the store is not in the
  repository; the glossary defines it as the filter keeping the points whose distance to
  the centre is less than or equal to the threshold, computed as \<^verbatim>\<open>ST_Distance\<close> computes.
\<close>

definition ST_DWithin :: "'id postgres \<Rightarrow> point \<Rightarrow> point \<Rightarrow> real \<Rightarrow> bool" where
  "ST_DWithin P a b r = (ST_Distance P a b \<le> r)"

text \<open>
  Binding a statement parameter: \<^verbatim>\<open>undefined\<close> and \<^verbatim>\<open>null\<close> are sent as SQL NULL
  (\<open>Inr None\<close>); any other value goes through the input conversion of the column type,
  and the statement fails when it does not convert.
\<close>

definition bind_param :: "(jsval \<Rightarrow> 'a option) \<Rightarrow> jsval option \<Rightarrow> db_error + 'a option" where
  "bind_param conv v =
     (case v of
        None \<Rightarrow> Inr None
      | Some JNull \<Rightarrow> Inr None
      | Some x \<Rightarrow>
          (case conv x of
             None \<Rightarrow> Inl Invalid_text_representation
           | Some a \<Rightarrow> Inr (Some a)))"

text \<open>
  The correlated subquery \<^verbatim>\<open>SELECT json_agg(json_build_object('id', li.id, 'image_url',
  li.image_url)) FROM listing_images li WHERE li.listing_id = l.id\<close>: \<^verbatim>\<open>json_agg\<close> over no
  row is NULL, otherwise the array of the objects (taken in table order).
\<close>

type_synonym 'id image_obj = "'id \<times> string"

definition json_build_object :: "'id listing_image \<Rightarrow> 'id image_obj" where
  "json_build_object li = (li_id li, li_image_url li)"

definition json_agg :: "'a list \<Rightarrow> 'a list option" where
  "json_agg xs = (if xs = [] then None else Some xs)"

definition images_subquery :: "'id db \<Rightarrow> 'id \<Rightarrow> 'id image_obj list option" where
  "images_subquery d i =
     json_agg (map json_build_object (filter (\<lambda>li. li_listing_id li = i) (listing_images d)))"

definition COALESCE :: "'a option \<Rightarrow> 'a \<Rightarrow> 'a option" where
  "COALESCE x dflt = (case x of None \<Rightarrow> Some dflt | Some v \<Rightarrow> Some v)"

definition log_statement :: "statement \<Rightarrow> 'id db \<Rightarrow> 'id db" where
  "log_statement s d = d\<lparr>executed := executed d @ [s]\<rparr>"

section \<open>GET /api/listings/nearby\<close>

record 'id nearby_row =
  n_id :: 'id
  n_host_id :: 'id
  n_title :: string
  n_description :: "string option"
  n_price_kes :: int
  n_location_name :: "string option"
  n_is_featured :: bool
  n_longitude :: real
  n_latitude :: real
  n_distance :: real
  n_images :: "'id image_obj list option"

text \<open>The select list of the proximity query, for one listing and the query centre.\<close>

definition nearby_select :: "'id postgres \<Rightarrow> 'id db \<Rightarrow> point \<Rightarrow> 'id listing \<Rightarrow> 'id nearby_row" where
  "nearby_select P d c l =
     \<lparr>n_id = l_id l,
      n_host_id = l_host_id l,
      n_title = l_title l,
      n_description = l_description l,
      n_price_kes = l_price_kes l,
      n_location_name = l_location_name l,
      n_is_featured = l_is_featured l,
      n_longitude = ST_X (l_location l),
      n_latitude = ST_Y (l_location l),
      n_distance = ST_Distance P (l_location l) c,
      n_images = images_subquery d (l_id l)\<rparr>"

text \<open>
  \<^verbatim>\<open>WHERE l.is_active = true AND ST_DWithin(l.location, centre, $3)\<close> and
  \<^verbatim>\<open>ORDER BY l.is_featured DESC, distance ASC\<close>. The sort key puts \<open>featured\<close> first
  (\<open>False < True\<close>, so the key is the negated flag) and compares pairs
  lexicographically; rows with equal keys keep their table order.
\<close>

definition nearby_where :: "'id postgres \<Rightarrow> point \<Rightarrow> real \<Rightarrow> 'id listing \<Rightarrow> bool" where
  "nearby_where P c r l = (l_is_active l = True \<and> ST_DWithin P (l_location l) c r)"

definition nearby_order :: "'id nearby_row \<Rightarrow> bool \<times> real" where
  "nearby_order row = (\<not> n_is_featured row, n_distance row)"

text \<open>
  The statement with its parameters \<^verbatim>\<open>[lng, lat, radius]\<close> as \<^verbatim>\<open>$1, $2, $3\<close>. A NULL
  parameter makes the centre or the radius NULL, the filter is then not true for any
  row.
\<close>

definition query_nearby ::
  "'id postgres \<Rightarrow> jsval option \<Rightarrow> jsval option \<Rightarrow> jsval option \<Rightarrow> 'id db
     \<Rightarrow> (db_error + 'id nearby_row list) \<times> 'id db" where
  "query_nearby P p1 p2 p3 d =
     (let d' = log_statement SELECT_nearby d in
      case bind_param (float8_in P) p1 of
        Inl e \<Rightarrow> (Inl e, d')
      | Inr x \<Rightarrow>
      (case bind_param (float8_in P) p2 of
        Inl e \<Rightarrow> (Inl e, d')
      | Inr y \<Rightarrow>
      (case bind_param (float8_in P) p3 of
        Inl e \<Rightarrow> (Inl e, d')
      | Inr r \<Rightarrow>
      (case (x, y, r) of
        (Some x', Some y', Some r') \<Rightarrow>
          (case geography P (ST_MakePoint x' y') of
             None \<Rightarrow> (Inl Invalid_text_representation, d')
           | Some c \<Rightarrow>
               (Inr (sort_key nearby_order
                       (map (nearby_select P d c) (filter (nearby_where P c r') (listings d)))),
                d'))
      | _ \<Rightarrow> (Inr [], d')))))"

text \<open>\<^verbatim>\<open>const { lat, lng, radius = 5000 } = req.query\<close>: the default applies to a missing radius only.\<close>

definition radius_param :: "request \<Rightarrow> jsval" where
  "radius_param req = (case query req ''radius'' of None \<Rightarrow> JNum 5000 | Some v \<Rightarrow> js_of_qs v)"

definition listings_nearby ::
  "'id postgres \<Rightarrow> request \<Rightarrow> 'id db \<Rightarrow> 'id nearby_row list response \<times> 'id db" where
  "listings_nearby P req d =
     (let lat = map_option js_of_qs (query req ''lat'');
          lng = map_option js_of_qs (query req ''lng'');
          radius = radius_param req in
      if \<not> truthy lat \<or> \<not> truthy lng then
        ((400, Error ''lat and lng are required''), d)
      else
        (case query_nearby P lng lat (Some radius) d of
           (Inr rows, d') \<Rightarrow> ((200, Json rows), d')
         | (Inl e, d') \<Rightarrow> ((500, Error ''Internal server error''), d')))"

section \<open>GET /api/listings/:id\<close>

record 'id detail_row =
  d_listing :: "'id listing"
  d_latitude :: real
  d_longitude :: real
  d_host_name :: string
  d_host_phone :: string
  d_host_whatsapp :: string
  d_images :: "'id image_obj list option"

text \<open>
  The select list of the single-listing query, for a listing joined with its host:
  \<^verbatim>\<open>l.*, ST_X(l.location::geometry) AS latitude, ST_Y(l.location::geometry) AS longitude\<close>,
  the host columns, and the image subquery under \<^verbatim>\<open>COALESCE(..., '[]'::json)\<close>.
\<close>

definition detail_select :: "'id db \<Rightarrow> 'id listing \<Rightarrow> 'id user \<Rightarrow> 'id detail_row" where
  "detail_select d l u =
     \<lparr>d_listing = l,
      d_latitude = ST_X (l_location l),
      d_longitude = ST_Y (l_location l),
      d_host_name = u_name u,
      d_host_phone = u_phone u,
      d_host_whatsapp = u_whatsapp u,
      d_images = COALESCE (images_subquery d (l_id l)) []\<rparr>"

text \<open>\<^verbatim>\<open>FROM listings l JOIN users u ON l.host_id = u.id\<close>: the pairs of the inner join.\<close>

definition listings_join_users :: "'id db \<Rightarrow> ('id listing \<times> 'id user) list" where
  "listings_join_users d =
     concat (map (\<lambda>l. map (\<lambda>u. (l, u)) (filter (\<lambda>u. l_host_id l = u_id u) (users d))) (listings d))"

definition query_listing ::
  "'id postgres \<Rightarrow> jsval option \<Rightarrow> 'id db \<Rightarrow> (db_error + 'id detail_row list) \<times> 'id db" where
  "query_listing P p1 d =
     (let d' = log_statement SELECT_listing d in
      case bind_param (id_in P) p1 of
        Inl e \<Rightarrow> (Inl e, d')
      | Inr None \<Rightarrow> (Inr [], d')
      | Inr (Some i) \<Rightarrow>
          (Inr (map (\<lambda>(l, u). detail_select d l u)
                  (filter (\<lambda>(l, u). l_id l = i) (listings_join_users d))),
           d'))"

text \<open>\<^verbatim>\<open>req.params.id\<close> is the path segment, a string.\<close>

definition params_id :: "request \<Rightarrow> jsval option" where
  "params_id req = map_option JStr (params req ''id'')"

definition get_listing ::
  "'id postgres \<Rightarrow> request \<Rightarrow> 'id db \<Rightarrow> 'id detail_row response \<times> 'id db" where
  "get_listing P req d =
     (case query_listing P (params_id req) d of
        (Inr rows, d') \<Rightarrow>
          (case rows of
             [] \<Rightarrow> ((404, Error ''Listing not found''), d')
           | row # _ \<Rightarrow> ((200, Json row), d'))
      | (Inl e, d') \<Rightarrow> ((500, Error ''Internal server error''), d'))"

section \<open>GET /api/listings/:id/images\<close>

text \<open>\<^verbatim>\<open>SELECT id, image_url FROM listing_images WHERE listing_id = $1 ORDER BY id\<close>.\<close>

definition query_images ::
  "('id::linorder) postgres \<Rightarrow> jsval option \<Rightarrow> 'id db \<Rightarrow> (db_error + 'id image_obj list) \<times> 'id db" where
  "query_images P p1 d =
     (let d' = log_statement SELECT_images d in
      case bind_param (id_in P) p1 of
        Inl e \<Rightarrow> (Inl e, d')
      | Inr None \<Rightarrow> (Inr [], d')
      | Inr (Some i) \<Rightarrow>
          (Inr (sort_key fst
                  (map (\<lambda>li. (li_id li, li_image_url li))
                     (filter (\<lambda>li. li_listing_id li = i) (listing_images d)))),
           d'))"

definition get_listing_images ::
  "('id::linorder) postgres \<Rightarrow> request \<Rightarrow> 'id db \<Rightarrow> 'id image_obj list response \<times> 'id db" where
  "get_listing_images P req d =
     (case query_images P (params_id req) d of
        (Inr rows, d') \<Rightarrow> ((200, Json rows), d')
      | (Inl e, d') \<Rightarrow> ((500, Error ''Internal server error''), d'))"

section \<open>POST /api/admin/listings\<close>

text \<open>
  \<^verbatim>\<open>INSERT INTO listings (host_id, title, description, price_kes, location, location_name)
  VALUES ($1, $2, $3, $4, ST_SetSRID(ST_MakePoint($5, $6), 4326)::geography, $7) RETURNING *\<close>.
  The columns the statement does not name take their defaults. A NULL in a column of the
  model that holds no NULL (host, title, price, location) is a constraint violation. The
  new row must pass the table constraints; the identity is drawn before they are checked.
  A statement that succeeds has inserted one row and returns it: \<^verbatim>\<open>result.rows[0]\<close>.
\<close>

definition query_insert ::
  "'id postgres \<Rightarrow> jsval option list \<Rightarrow> 'id db \<Rightarrow> (db_error + 'id listing) \<times> 'id db" where
  "query_insert P values d =
     (let d' = log_statement INSERT_listing d in
      case values of
        [p1, p2, p3, p4, p5, p6, p7] \<Rightarrow>
          (case (bind_param (id_in P) p1, bind_param (text_in P) p2, bind_param (text_in P) p3,
                 bind_param (int_in P) p4, bind_param (float8_in P) p5,
                 bind_param (float8_in P) p6, bind_param (text_in P) p7) of
             (Inr host, Inr title, Inr description, Inr price, Inr x, Inr y, Inr location_name) \<Rightarrow>
               (case (host, title, price, x, y) of
                  (Some host', Some title', Some price', Some x', Some y') \<Rightarrow>
                    (case geography P (ST_MakePoint x' y') of
                       None \<Rightarrow> (Inl Invalid_text_representation, d')
                     | Some location \<Rightarrow>
                         (let row = \<lparr>l_id = default_id P (listings_seq d),
                                     l_host_id = host',
                                     l_title = title',
                                     l_description = description,
                                     l_price_kes = price',
                                     l_location = location,
                                     l_location_name = location_name,
                                     l_is_active = default_is_active P,
                                     l_is_featured = default_is_featured P\<rparr>;
                              d'' = d'\<lparr>listings_seq := Suc (listings_seq d)\<rparr>
                          in if listings_constraints P d row
                             then (Inr row, d''\<lparr>listings := listings d @ [row]\<rparr>)
                             else (Inl Constraint_violation, d'')))
                | _ \<Rightarrow> (Inl Constraint_violation, d'))
           | _ \<Rightarrow> (Inl Invalid_text_representation, d'))
      | _ \<Rightarrow> (Inl Invalid_text_representation, d'))"

text \<open>
  The handler: the key check (\<^verbatim>\<open>key !== process.env.ADMIN_KEY\<close>, on a header that may be
  absent and a variable that may be unset), then the destructuring of \<^verbatim>\<open>req.body\<close>, which
  stands before the \<^verbatim>\<open>try\<close> and throws a TypeError on \<^verbatim>\<open>undefined\<close>, then the
  truthiness test of the five required fields, then the insert with \<^verbatim>\<open>longitude\<close> before
  \<^verbatim>\<open>latitude\<close>.
\<close>

definition create_listing ::
  "'id postgres \<Rightarrow> env \<Rightarrow> request \<Rightarrow> 'id db \<Rightarrow> 'id listing response \<times> 'id db" where
  "create_listing P e req d =
     (let key = headers req ''x-admin-key'' in
      if key \<noteq> ADMIN_KEY e then ((401, Error ''Unauthorized''), d)
      else
        (case body req of
           None \<Rightarrow> ((500, Uncaught ''TypeError''), d)
         | Some b \<Rightarrow>
        (let host_id = b ''host_id'';
             title = b ''title'';
             description = b ''description'';
             price_kes = b ''price_kes'';
             latitude = b ''latitude'';
             longitude = b ''longitude'';
             location_name = b ''location_name''
         in if \<not> truthy host_id \<or> \<not> truthy title \<or> \<not> truthy price_kes
                 \<or> \<not> truthy latitude \<or> \<not> truthy longitude then
              ((400, Error ''Missing required fields''), d)
            else
              (case query_insert P
                      [host_id, title, description, price_kes, longitude, latitude, location_name] d of
                 (Inr row, d') \<Rightarrow> ((201, Json row), d')
               | (Inl err, d') \<Rightarrow> ((500, Error ''Internal server error''), d')))))"

section \<open>The earlier copy of the single-listing handler\<close>

text \<open>
  The repository holds a second copy of the server (\<^verbatim>\<open>src/unnamed/part_000\<close>) whose
  single-listing query has no image subquery and labels the decoded point the other way
  round: \<^verbatim>\<open>ST_X(l.location::geometry) AS longitude, ST_Y(l.location::geometry) AS latitude\<close>.
  Its proximity and creation handlers read as those above, the proximity query without
  the image subquery.
\<close>

record 'id detail_row_part_000 =
  p_listing :: "'id listing"
  p_longitude :: real
  p_latitude :: real
  p_host_name :: string
  p_host_phone :: string
  p_host_whatsapp :: string

definition detail_select_part_000 :: "'id listing \<Rightarrow> 'id user \<Rightarrow> 'id detail_row_part_000" where
  "detail_select_part_000 l u =
     \<lparr>p_listing = l,
      p_longitude = ST_X (l_location l),
      p_latitude = ST_Y (l_location l),
      p_host_name = u_name u,
      p_host_phone = u_phone u,
      p_host_whatsapp = u_whatsapp u\<rparr>"

definition query_listing_part_000 ::
  "'id postgres \<Rightarrow> jsval option \<Rightarrow> 'id db \<Rightarrow> (db_error + 'id detail_row_part_000 list) \<times> 'id db" where
  "query_listing_part_000 P p1 d =
     (let d' = log_statement SELECT_listing d in
      case bind_param (id_in P) p1 of
        Inl e \<Rightarrow> (Inl e, d')
      | Inr None \<Rightarrow> (Inr [], d')
      | Inr (Some i) \<Rightarrow>
          (Inr (map (\<lambda>(l, u). detail_select_part_000 l u)
                  (filter (\<lambda>(l, u). l_id l = i) (listings_join_users d))),
           d'))"

definition get_listing_part_000 ::
  "'id postgres \<Rightarrow> request \<Rightarrow> 'id db \<Rightarrow> 'id detail_row_part_000 response \<times> 'id db" where
  "get_listing_part_000 P req d =
     (case query_listing_part_000 P (params_id req) d of
        (Inr rows, d') \<Rightarrow>
          (case rows of
             [] \<Rightarrow> ((404, Error ''Listing not found''), d')
           | row # _ \<Rightarrow> ((200, Json row), d'))
      | (Inl e, d') \<Rightarrow> ((500, Error ''Internal server error''), d'))"

section \<open>A seeded store\<close>

text \<open>
  One instance of the store parameters, used to run the handlers on concrete requests:
  identifiers are naturals written in decimal, numbers convert to themselves, the cast
  to geography accepts the points of the coordinate range, and distance is a taxicab
  distance scaled to metres.
\<close>

primrec decimal_from :: "nat \<Rightarrow> string \<Rightarrow> nat option" where
  "decimal_from n [] = Some n"
| "decimal_from n (c # cs) =
     (if 48 \<le> (of_char c :: nat) \<and> (of_char c :: nat) \<le> 57
      then decimal_from (10 * n + (of_char c - 48)) cs else None)"

definition decimal :: "string \<Rightarrow> nat option" where
  "decimal s = (if s = [] then None else decimal_from 0 s)"

definition example_postgres :: "nat postgres" where
  "example_postgres =
     \<lparr>id_in = (\<lambda>v. case v of JStr s \<Rightarrow> decimal s | _ \<Rightarrow> None),
      text_in = (\<lambda>v. case v of JStr s \<Rightarrow> Some s | _ \<Rightarrow> None),
      int_in = (\<lambda>v. case v of JNum n \<Rightarrow> (if n = of_int \<lfloor>n\<rfloor> then Some \<lfloor>n\<rfloor> else None) | _ \<Rightarrow> None),
      float8_in = (\<lambda>v. case v of JNum n \<Rightarrow> Some n | JStr s \<Rightarrow> map_option real (decimal s) | _ \<Rightarrow> None),
      geography = (\<lambda>p. if - 180 \<le> ST_X p \<and> ST_X p \<le> 180 \<and> - 90 \<le> ST_Y p \<and> ST_Y p \<le> 90
                       then Some p else None),
      ST_Distance = (\<lambda>a b. 1000 * (\<bar>ST_X a - ST_X b\<bar> + \<bar>ST_Y a - ST_Y b\<bar>)),
      default_id = Suc,
      default_is_active = True,
      default_is_featured = False,
      listings_constraints =
        (\<lambda>d l. l_id l \<notin> set (map l_id (listings d)) \<and> l_host_id l \<in> set (map u_id (users d)))\<rparr>"

definition example_listing :: "nat \<Rightarrow> string \<Rightarrow> real \<Rightarrow> real \<Rightarrow> bool \<Rightarrow> bool \<Rightarrow> nat listing" where
  "example_listing i t x y active featured =
     \<lparr>l_id = i, l_host_id = 7, l_title = t, l_description = None, l_price_kes = 4500,
      l_location = ST_MakePoint x y, l_location_name = Some ''Nyali'',
      l_is_active = active, l_is_featured = featured\<rparr>"

definition example_db :: "nat db" where
  "example_db =
     \<lparr>listings =
        [example_listing 1 ''Beach cottage'' 2 1 True False,
         example_listing 2 ''Old town loft'' 3 1 True True,
         example_listing 3 ''Closed villa'' 2 1 False True,
         example_listing 4 ''Far away'' 50 50 True True,
         example_listing 5 ''Creek house'' 2 3 True True],
      listing_images =
        [\<lparr>li_id = 12, li_listing_id = 1, li_image_url = ''b.jpg''\<rparr>,
         \<lparr>li_id = 11, li_listing_id = 1, li_image_url = ''a.jpg''\<rparr>,
         \<lparr>li_id = 13, li_listing_id = 4, li_image_url = ''c.jpg''\<rparr>],
      users = [\<lparr>u_id = 7, u_name = ''Amina'', u_phone = ''0700'', u_whatsapp = ''0700''\<rparr>],
      listings_seq = 5,
      executed = []\<rparr>"

definition empty_db :: "nat db" where
  "empty_db =
     \<lparr>listings = [], listing_images = [],
      users = [\<lparr>u_id = 7, u_name = ''Amina'', u_phone = ''0700'', u_whatsapp = ''0700''\<rparr>],
      listings_seq = 0, executed = []\<rparr>"

definition example_env :: env where
  "example_env = \<lparr>ADMIN_KEY = Some ''s3cret''\<rparr>"

definition empty_request :: request where
  "empty_request = \<lparr>headers = Map.empty, query = Map.empty, params = Map.empty, body = None\<rparr>"

text \<open>\<^verbatim>\<open>GET /api/listings/nearby?lat=1&lng=2\<close>\<close>

definition nearby_request :: request where
  "nearby_request = empty_request\<lparr>query := [''lat'' \<mapsto> QStr ''1'', ''lng'' \<mapsto> QStr ''2'']\<rparr>"

text \<open>\<^verbatim>\<open>GET /api/listings/<id>\<close> and \<^verbatim>\<open>GET /api/listings/<id>/images\<close>\<close>

definition id_request :: "string \<Rightarrow> request" where
  "id_request s = empty_request\<lparr>params := [''id'' \<mapsto> s]\<rparr>"

text \<open>
  \<^verbatim>\<open>POST /api/admin/listings\<close> with the key \<open>k\<close> and the body
  \<^verbatim>\<open>{"host_id": "7", "title": "Sea view", "price_kes": 3000, "latitude": 1.0, "longitude": 2.0}\<close>.
\<close>

definition create_body :: "string \<rightharpoonup> jsval" where
  "create_body =
     [''host_id'' \<mapsto> JStr ''7'', ''title'' \<mapsto> JStr ''Sea view'', ''price_kes'' \<mapsto> JNum 3000,
      ''latitude'' \<mapsto> JNum 1, ''longitude'' \<mapsto> JNum 2]"

definition create_request :: "string option \<Rightarrow> (string \<rightharpoonup> jsval) \<Rightarrow> request" where
  "create_request k b =
     empty_request\<lparr>headers := (\<lambda>h. if h = ''x-admin-key'' then k else None), body := Some b\<rparr>"

text \<open>The rows the proximity search of the seeded store answers with, in order.\<close>

definition expected_nearby :: "nat nearby_row list" where
  "expected_nearby =
     map (nearby_select example_postgres example_db (ST_MakePoint 2 1))
       [example_listing 2 ''Old town loft'' 3 1 True True,
        example_listing 5 ''Creek house'' 2 3 True True,
        example_listing 1 ''Beach cottage'' 2 1 True False]"

text \<open>The listing the creation request inserts into the empty store, and the store after it.\<close>

definition created_listing :: "nat listing" where
  "created_listing =
     \<lparr>l_id = 1, l_host_id = 7, l_title = ''Sea view'', l_description = None,
      l_price_kes = 3000, l_location = ST_MakePoint 2 1, l_location_name = None,
      l_is_active = True, l_is_featured = False\<rparr>"

definition created_db :: "nat db" where
  "created_db = empty_db\<lparr>listings := [created_listing], listings_seq := 1, executed := [INSERT_listing]\<rparr>"

section \<open>Evaluation of the seeded store\<close>

lemmas example_defs =
  example_postgres_def example_db_def empty_db_def example_listing_def example_env_def
  empty_request_def nearby_request_def id_request_def create_body_def create_request_def
  decimal_def ST_MakePoint_def expected_nearby_def created_listing_def created_db_def

lemmas query_defs =
  bind_param_def log_statement_def params_id_def radius_param_def ST_DWithin_def
  json_agg_def json_build_object_def images_subquery_def COALESCE_def

section \<open>Validation and authorization of the handlers\<close>

text \<open>
  C5. A proximity search whose \<^verbatim>\<open>lat\<close> parameter is missing, or whose \<^verbatim>\<open>lng\<close> parameter
  is missing, answers 400 and hands back the store as it was: no statement is logged,
  so no query was sent.
\<close>

theorem nearby_missing_lat_lng_400:
  assumes "query req ''lat'' = None \<or> query req ''lng'' = None"
  shows "listings_nearby P req d = ((400, Error ''lat and lng are required''), d)"
  using assms by (auto simp: listings_nearby_def Let_def)

theorem nearby_missing_lat_lng_400_witness:
  "query (empty_request\<lparr>query := [''lng'' \<mapsto> QStr ''2'']\<rparr>) ''lat'' = None
   \<and> listings_nearby example_postgres (empty_request\<lparr>query := [''lng'' \<mapsto> QStr ''2'']\<rparr>) example_db
       = ((400, Error ''lat and lng are required''), example_db)"
proof -
  let ?req = "empty_request\<lparr>query := [''lng'' \<mapsto> QStr ''2'']\<rparr>"
  have h: "query ?req ''lat'' = None"
    by (simp add: empty_request_def)
  then have "query ?req ''lat'' = None \<or> query ?req ''lng'' = None" ..
  from nearby_missing_lat_lng_400 [OF this, of example_postgres example_db] h
  show ?thesis by simp
qed

text \<open>
  C4. With a secret configured, an admin creation whose \<^verbatim>\<open>x-admin-key\<close> header is absent
  or differs from the secret answers 401 whatever the body holds, and the store is
  handed back as it was: no row inserted, no statement sent.
\<close>

theorem create_unauthorized_401:
  assumes "ADMIN_KEY e = Some secret"
    and "headers req ''x-admin-key'' = None \<or> headers req ''x-admin-key'' \<noteq> Some secret"
  shows "create_listing P e req d = ((401, Error ''Unauthorized''), d)"
  using assms by (auto simp: create_listing_def Let_def)

theorem create_unauthorized_401_witness:
  "ADMIN_KEY example_env = Some ''s3cret''
   \<and> headers (create_request None create_body) ''x-admin-key'' = None
   \<and> create_listing example_postgres example_env (create_request None create_body) empty_db
       = ((401, Error ''Unauthorized''), empty_db)
   \<and> headers (create_request (Some ''guess'') Map.empty) ''x-admin-key'' \<noteq> Some ''s3cret''
   \<and> create_listing example_postgres example_env (create_request (Some ''guess'') Map.empty) empty_db
       = ((401, Error ''Unauthorized''), empty_db)"
proof -
  have k: "ADMIN_KEY example_env = Some ''s3cret''"
    by (simp add: example_env_def)
  have a: "headers (create_request None create_body) ''x-admin-key'' = None"
    by (simp add: create_request_def empty_request_def)
  have b: "headers (create_request (Some ''guess'') Map.empty) ''x-admin-key'' \<noteq> Some ''s3cret''"
    by (simp add: create_request_def empty_request_def)
  from create_unauthorized_401 [OF k disjI1, OF a, of example_postgres empty_db]
    create_unauthorized_401 [OF k disjI2, OF b, of example_postgres empty_db] k a b
  show ?thesis by simp
qed

text \<open>
  The check compares the header with the environment variable as JavaScript values; when
  the variable is unset, a request without the header is not rejected by it.
\<close>

lemma create_key_unset_header_absent:
  assumes "ADMIN_KEY e = None" and "headers req ''x-admin-key'' = None"
  shows "fst (fst (create_listing P e req d)) \<noteq> 401"
  using assms
  by (auto simp: create_listing_def Let_def split: prod.splits sum.splits option.splits)




text \<open>
  C9. With the valid key, an admin creation in which a required field is present but
  falsy (\<^verbatim>\<open>price_kes\<close>, \<^verbatim>\<open>latitude\<close> or \<^verbatim>\<open>longitude\<close> equal to 0, \<^verbatim>\<open>title\<close> or \<^verbatim>\<open>host_id\<close>
  the empty string) answers 400 and inserts nothing: the check tests truthiness.
\<close>

theorem create_falsy_field_400:
  assumes "headers req ''x-admin-key'' = ADMIN_KEY e"
    and "body req = Some b"
    and "b ''price_kes'' = Some (JNum 0) \<or> b ''latitude'' = Some (JNum 0)
       \<or> b ''longitude'' = Some (JNum 0) \<or> b ''title'' = Some (JStr [])
       \<or> b ''host_id'' = Some (JStr [])"
  shows "create_listing P e req d = ((400, Error ''Missing required fields''), d)"
  using assms by (auto simp: create_listing_def Let_def)

theorem create_falsy_field_400_witness:
  "headers (create_request (Some ''s3cret'') (create_body(''latitude'' \<mapsto> JNum 0))) ''x-admin-key''
     = ADMIN_KEY example_env
   \<and> body (create_request (Some ''s3cret'') (create_body(''latitude'' \<mapsto> JNum 0)))
     = Some (create_body(''latitude'' \<mapsto> JNum 0))
   \<and> (create_body(''latitude'' \<mapsto> JNum 0)) ''latitude'' = Some (JNum 0)
   \<and> create_listing example_postgres example_env
        (create_request (Some ''s3cret'') (create_body(''latitude'' \<mapsto> JNum 0))) empty_db
       = ((400, Error ''Missing required fields''), empty_db)"
proof -
  let ?b = "create_body(''latitude'' \<mapsto> JNum 0)"
  let ?req = "create_request (Some ''s3cret'') ?b"
  have k: "headers ?req ''x-admin-key'' = ADMIN_KEY example_env"
    by (simp add: create_request_def empty_request_def example_env_def)
  have b: "body ?req = Some ?b"
    by (simp add: create_request_def empty_request_def)
  have z: "?b ''latitude'' = Some (JNum 0)"
    by simp
  then have "?b ''price_kes'' = Some (JNum 0) \<or> ?b ''latitude'' = Some (JNum 0)
       \<or> ?b ''longitude'' = Some (JNum 0) \<or> ?b ''title'' = Some (JStr [])
       \<or> ?b ''host_id'' = Some (JStr [])"
    by blast
  from create_falsy_field_400 [OF k b this, of example_postgres empty_db] k b z
  show ?thesis by simp
qed

section \<open>Proximity search\<close>

lemma js_of_qs_not_null: "js_of_qs v \<noteq> JNull"
  by (cases v) simp_all

lemma radius_param_not_null: "radius_param req \<noteq> JNull"
  by (simp add: radius_param_def js_of_qs_not_null split: option.splits)

lemma bind_param_present:
  "x \<noteq> JNull \<Longrightarrow>
   bind_param conv (Some x) =
     (case conv x of None \<Rightarrow> Inl Invalid_text_representation | Some a \<Rightarrow> Inr (Some a))"
  by (cases x) (simp_all add: bind_param_def)

text \<open>
  A 200 answer of the proximity search is the sorted, filtered and projected listings
  table, for the centre built from \<^verbatim>\<open>(lng, lat)\<close> and the converted radius.
\<close>

lemma listings_nearby_200:
  assumes "listings_nearby P req d = ((200, Json rows), d')"
  shows "\<exists>lat lng x y r c.
     query req ''lat'' = Some lat \<and> query req ''lng'' = Some lng
     \<and> float8_in P (js_of_qs lng) = Some x \<and> float8_in P (js_of_qs lat) = Some y
     \<and> float8_in P (radius_param req) = Some r
     \<and> geography P (ST_MakePoint x y) = Some c
     \<and> rows = sort_key nearby_order
                (map (nearby_select P d c) (filter (nearby_where P c r) (listings d)))
     \<and> d' = log_statement SELECT_nearby d"
proof -
  from assms obtain lat lng
    where q: "query req ''lat'' = Some lat" "query req ''lng'' = Some lng"
    by (cases "query req ''lat''"; cases "query req ''lng''")
       (auto simp: listings_nearby_def Let_def)
  from assms q show ?thesis
    by (auto simp: listings_nearby_def Let_def query_nearby_def bind_param_present
          js_of_qs_not_null radius_param_not_null
        split: if_splits option.splits prod.splits sum.splits)
qed

lemma nearby_example:
  "listings_nearby example_postgres nearby_request example_db
     = ((200, Json expected_nearby), log_statement SELECT_nearby example_db)"
  by (simp add: listings_nearby_def query_nearby_def Let_def example_defs query_defs
        nearby_where_def nearby_select_def nearby_order_def less_eq_prod_def)

text \<open>
  C1. When the proximity search answers with an array, \<^verbatim>\<open>lat\<close> and \<^verbatim>\<open>lng\<close> were present
  and converted, the radius is the given one or 5000 when none was given, every row of
  the array is the projection of a stored listing that is active, with a distance from
  the centre that is at most the radius, and every active listing whose distance from
  the centre is at most the radius has its row in the array.
\<close>

theorem nearby_active_within_radius:
  assumes "listings_nearby P req d = ((200, Json rows), d')"
  shows "\<exists>lat lng x y r c.
     query req ''lat'' = Some lat \<and> query req ''lng'' = Some lng
     \<and> float8_in P (js_of_qs lng) = Some x \<and> float8_in P (js_of_qs lat) = Some y
     \<and> geography P (ST_MakePoint x y) = Some c
     \<and> float8_in P (case query req ''radius'' of None \<Rightarrow> JNum 5000 | Some v \<Rightarrow> js_of_qs v) = Some r
     \<and> (\<forall>row \<in> set rows.
           n_distance row \<le> r
           \<and> (\<exists>l \<in> set (listings d).
                 l_is_active l \<and> row = nearby_select P d c l
                 \<and> n_distance row = ST_Distance P (l_location l) c))
     \<and> (\<forall>l \<in> set (listings d).
           l_is_active l \<and> ST_Distance P (l_location l) c \<le> r
           \<longrightarrow> nearby_select P d c l \<in> set rows)"
proof -
  from listings_nearby_200 [OF assms] obtain lat lng x y r c
    where q: "query req ''lat'' = Some lat" "query req ''lng'' = Some lng"
      and f: "float8_in P (js_of_qs lng) = Some x" "float8_in P (js_of_qs lat) = Some y"
      and r: "float8_in P (radius_param req) = Some r"
      and c: "geography P (ST_MakePoint x y) = Some c"
      and rows: "rows = sort_key nearby_order
                   (map (nearby_select P d c) (filter (nearby_where P c r) (listings d)))"
    by blast
  have s: "set rows = nearby_select P d c ` {l \<in> set (listings d). nearby_where P c r l}"
    by (simp add: rows)
  have dist: "n_distance (nearby_select P d c l) = ST_Distance P (l_location l) c" for l
    by (simp add: nearby_select_def)
  have sound: "\<forall>row \<in> set rows.
           n_distance row \<le> r
           \<and> (\<exists>l \<in> set (listings d).
                 l_is_active l \<and> row = nearby_select P d c l
                 \<and> n_distance row = ST_Distance P (l_location l) c)"
    unfolding s by (auto simp: nearby_where_def ST_DWithin_def dist)
  have complete: "\<forall>l \<in> set (listings d).
           l_is_active l \<and> ST_Distance P (l_location l) c \<le> r
           \<longrightarrow> nearby_select P d c l \<in> set rows"
    unfolding s by (auto simp: nearby_where_def ST_DWithin_def)
  from r have r': "float8_in P (case query req ''radius'' of None \<Rightarrow> JNum 5000 | Some v \<Rightarrow> js_of_qs v) = Some r"
    by (simp add: radius_param_def)
  from q f c r' sound complete show ?thesis by blast
qed

theorem nearby_active_within_radius_witness:
  "listings_nearby example_postgres nearby_request example_db
     = ((200, Json expected_nearby), log_statement SELECT_nearby example_db)
   \<and> list_all (\<lambda>row. n_distance row \<le> 5000) expected_nearby
   \<and> list_all (\<lambda>row. \<exists>l \<in> set (listings example_db). l_is_active l \<and> n_id row = l_id l) expected_nearby
   \<and> map n_id expected_nearby = [2, 5, 1]
   \<and> map n_distance expected_nearby = [1000, 2000, 0]"
proof -
  have h: "listings_nearby example_postgres nearby_request example_db
     = ((200, Json expected_nearby), log_statement SELECT_nearby example_db)"
    by (rule nearby_example)
  from nearby_active_within_radius [OF h] obtain lat lng x y r c
    where q: "query nearby_request ''lat'' = Some lat" "query nearby_request ''lng'' = Some lng"
      and f: "float8_in example_postgres (js_of_qs lng) = Some x"
             "float8_in example_postgres (js_of_qs lat) = Some y"
      and c: "geography example_postgres (ST_MakePoint x y) = Some c"
      and r: "float8_in example_postgres
                (case query nearby_request ''radius'' of None \<Rightarrow> JNum 5000 | Some v \<Rightarrow> js_of_qs v) = Some r"
      and sound: "\<forall>row \<in> set expected_nearby.
           n_distance row \<le> r
           \<and> (\<exists>l \<in> set (listings example_db).
                 l_is_active l \<and> row = nearby_select example_postgres example_db c l
                 \<and> n_distance row = ST_Distance example_postgres (l_location l) c)"
    by blast
  from r have r5: "r = 5000"
    by (simp add: nearby_request_def empty_request_def example_postgres_def)
  from sound r5 have a: "list_all (\<lambda>row. n_distance row \<le> 5000) expected_nearby"
    by (simp add: list_all_iff)
  from sound have b: "list_all (\<lambda>row. \<exists>l \<in> set (listings example_db). l_is_active l \<and> n_id row = l_id l) expected_nearby"
    unfolding list_all_iff
  proof (intro ballI)
    fix row assume "row \<in> set expected_nearby"
    with sound obtain l where "l \<in> set (listings example_db)" "l_is_active l"
      "row = nearby_select example_postgres example_db c l" by blast
    then show "\<exists>l \<in> set (listings example_db). l_is_active l \<and> n_id row = l_id l"
      by (auto simp: nearby_select_def)
  qed
  have e: "map n_id expected_nearby = [2, 5, 1]" "map n_distance expected_nearby = [1000, 2000, 0]"
    by (simp_all add: example_defs nearby_select_def)
  from h a b e show ?thesis by simp
qed

text \<open>
  C2. In the array a proximity search answers with, no row that is not featured stands
  before a featured one, and of two rows with the same featured flag the earlier one
  has the smaller or equal distance.
\<close>

theorem nearby_featured_first_then_distance:
  assumes "listings_nearby P req d = ((200, Json rows), d')"
    and "i < j" and "j < length rows"
  shows "(n_is_featured (rows ! j) \<longrightarrow> n_is_featured (rows ! i))
       \<and> (n_is_featured (rows ! i) = n_is_featured (rows ! j)
            \<longrightarrow> n_distance (rows ! i) \<le> n_distance (rows ! j))"
proof -
  from listings_nearby_200 [OF assms(1)] have "sorted (map nearby_order rows)"
    by auto
  moreover from assms have "i \<le> j" "j < length (map nearby_order rows)"
    by simp_all
  ultimately have "map nearby_order rows ! i \<le> map nearby_order rows ! j"
    by (rule sorted_nth_mono)
  with assms have "nearby_order (rows ! i) \<le> nearby_order (rows ! j)"
    by simp
  then show ?thesis
    by (auto simp: nearby_order_def less_eq_prod_def)
qed

theorem nearby_featured_first_then_distance_witness:
  "listings_nearby example_postgres nearby_request example_db
     = ((200, Json expected_nearby), log_statement SELECT_nearby example_db)
   \<and> (0::nat) < 1 \<and> (1::nat) < 2 \<and> 2 < length expected_nearby
   \<and> map n_is_featured expected_nearby = [True, True, False]
   \<and> n_distance (expected_nearby ! 0) \<le> n_distance (expected_nearby ! 1)
   \<and> n_is_featured (expected_nearby ! 1)"
proof -
  have h: "listings_nearby example_postgres nearby_request example_db
     = ((200, Json expected_nearby), log_statement SELECT_nearby example_db)"
    by (rule nearby_example)
  have len: "2 < length expected_nearby"
    by (simp add: expected_nearby_def)
  have feat: "map n_is_featured expected_nearby = [True, True, False]"
    by (simp add: example_defs nearby_select_def)
  then have f0: "n_is_featured (expected_nearby ! 0) = n_is_featured (expected_nearby ! 1)"
    and f1: "n_is_featured (expected_nearby ! 1)"
    by (simp_all add: expected_nearby_def nth_Cons')
  have "(1::nat) < length expected_nearby"
    using len by simp
  from nearby_featured_first_then_distance [OF h _ this, of 0] f0
  have d01: "n_distance (expected_nearby ! 0) \<le> n_distance (expected_nearby ! 1)"
    by simp
  from h len feat d01 f1 show ?thesis by simp
qed

section \<open>Single listing and its images\<close>

lemma query_listing_rows:
  assumes "id_in P (JStr s) = Some i"
  shows "query_listing P (Some (JStr s)) d =
     (Inr (map (\<lambda>(l, u). detail_select d l u)
             (filter (\<lambda>(l, u). l_id l = i) (listings_join_users d))),
      log_statement SELECT_listing d)"
  using assms by (simp add: query_listing_def bind_param_def Let_def)

lemma join_listing_stored: "(l, u) \<in> set (listings_join_users d) \<Longrightarrow> l \<in> set (listings d)"
  by (auto simp: listings_join_users_def)

text \<open>
  An identifier that the identifier column does not accept makes the statement fail, and
  the handler answers 500.
\<close>

lemma get_listing_malformed_id:
  assumes "params req ''id'' = Some s" and "id_in P (JStr s) = None"
  shows "get_listing P req d
     = ((500, Error ''Internal server error''), log_statement SELECT_listing d)"
  using assms
  by (simp add: get_listing_def query_listing_def params_id_def bind_param_def Let_def)

text \<open>
  C6. A single-listing fetch with an identifier that the identifier column accepts and
  that no stored listing has answers 404 with the error payload, not 500 and not a 200
  record.
\<close>

theorem get_listing_unknown_404:
  assumes "params req ''id'' = Some s"
    and "id_in P (JStr s) = Some i"
    and "\<forall>l \<in> set (listings d). l_id l \<noteq> i"
  shows "get_listing P req d
     = ((404, Error ''Listing not found''), log_statement SELECT_listing d)"
proof -
  have "filter (\<lambda>(l, u). l_id l = i) (listings_join_users d) = []"
    using assms(3) by (auto simp: filter_empty_conv dest: join_listing_stored)
  with assms(1,2) show ?thesis
    by (simp add: get_listing_def params_id_def query_listing_rows)
qed

theorem get_listing_unknown_404_witness:
  "params (id_request ''9'') ''id'' = Some ''9''
   \<and> id_in example_postgres (JStr ''9'') = Some 9
   \<and> list_all (\<lambda>l. l_id l \<noteq> 9) (listings example_db)
   \<and> get_listing example_postgres (id_request ''9'') example_db
       = ((404, Error ''Listing not found''), log_statement SELECT_listing example_db)"
proof -
  have p: "params (id_request ''9'') ''id'' = Some ''9''"
    by (simp add: id_request_def empty_request_def)
  have c: "id_in example_postgres (JStr ''9'') = Some 9"
    by (simp add: example_postgres_def decimal_def)
  have n: "list_all (\<lambda>l. l_id l \<noteq> 9) (listings example_db)"
    by (simp add: example_db_def example_listing_def)
  then have "\<forall>l \<in> set (listings example_db). l_id l \<noteq> 9"
    by (simp add: list_all_iff)
  from get_listing_unknown_404 [OF p c this] p c n show ?thesis by simp
qed

text \<open>
  In the seeded store, whose identifiers are decimal naturals, the path segment
  \<^verbatim>\<open>abc\<close> is the identifier of no stored listing, and the fetch answers 500, not 404.
\<close>

theorem get_listing_unknown_404_counterexample:
  "params (id_request ''abc'') ''id'' = Some ''abc''
   \<and> list_all (\<lambda>l. id_in example_postgres (JStr ''abc'') \<noteq> Some (l_id l)) (listings example_db)
   \<and> get_listing example_postgres (id_request ''abc'') example_db
       = ((500, Error ''Internal server error''), log_statement SELECT_listing example_db)
   \<and> fst (fst (get_listing example_postgres (id_request ''abc'') example_db)) \<noteq> 404"
proof -
  have p: "params (id_request ''abc'') ''id'' = Some ''abc''"
    by (simp add: id_request_def empty_request_def)
  have c: "id_in example_postgres (JStr ''abc'') = None"
    by (simp add: example_postgres_def decimal_def)
  have r: "get_listing example_postgres (id_request ''abc'') example_db
       = ((500, Error ''Internal server error''), log_statement SELECT_listing example_db)"
    by (rule get_listing_malformed_id [OF p c])
  from p c r show ?thesis
    by (simp add: list_all_iff)
qed

text \<open>
  C7. For a listing identifier, the image listing answers 200 with exactly the
  \<^verbatim>\<open>{id, image_url}\<close> records of the images that belong to the listing, in ascending
  order of id; when the listing has no image the array is empty.
\<close>

theorem get_listing_images_sorted:
  assumes "params req ''id'' = Some s"
    and "id_in P (JStr s) = Some i"
  shows "\<exists>rows.
     get_listing_images P req d = ((200, Json rows), log_statement SELECT_images d)
     \<and> mset rows = mset (map (\<lambda>li. (li_id li, li_image_url li))
                          (filter (\<lambda>li. li_listing_id li = i) (listing_images d)))
     \<and> sorted (map fst rows)
     \<and> ((\<forall>li \<in> set (listing_images d). li_listing_id li \<noteq> i) \<longrightarrow> rows = [])"
proof -
  let ?sel = "map (\<lambda>li. (li_id li, li_image_url li))
                (filter (\<lambda>li. li_listing_id li = i) (listing_images d))"
  have run: "get_listing_images P req d
      = ((200, Json (sort_key fst ?sel)), log_statement SELECT_images d)"
    using assms
    by (simp add: get_listing_images_def query_images_def params_id_def bind_param_def Let_def)
  have m: "mset (sort_key fst ?sel) = mset ?sel"
    by simp
  have o: "sorted (map fst (sort_key fst ?sel))"
    by (rule sorted_sort_key)
  have e: "(\<forall>li \<in> set (listing_images d). li_listing_id li \<noteq> i) \<longrightarrow> sort_key fst ?sel = []"
    by (auto simp: filter_empty_conv)
  from run m o e show ?thesis by blast
qed

lemma get_listing_images_example:
  "get_listing_images example_postgres (id_request ''1'') example_db
     = ((200, Json [(11, ''a.jpg''), (12, ''b.jpg'')]), log_statement SELECT_images example_db)"
  by (simp add: get_listing_images_def query_images_def Let_def example_defs query_defs)

theorem get_listing_images_sorted_witness:
  "params (id_request ''1'') ''id'' = Some ''1''
   \<and> id_in example_postgres (JStr ''1'') = Some 1
   \<and> get_listing_images example_postgres (id_request ''1'') example_db
       = ((200, Json [(11, ''a.jpg''), (12, ''b.jpg'')]), log_statement SELECT_images example_db)
   \<and> mset [(11, ''a.jpg''), (12, ''b.jpg'')]
       = mset (map (\<lambda>li. (li_id li, li_image_url li))
            (filter (\<lambda>li. li_listing_id li = 1) (listing_images example_db)))
   \<and> sorted (map fst [(11::nat, ''a.jpg''), (12, ''b.jpg'')])
   \<and> params (id_request ''2'') ''id'' = Some ''2''
   \<and> id_in example_postgres (JStr ''2'') = Some 2
   \<and> list_all (\<lambda>li. li_listing_id li \<noteq> 2) (listing_images example_db)
   \<and> get_listing_images example_postgres (id_request ''2'') example_db
       = ((200, Json []), log_statement SELECT_images example_db)"
proof -
  have p1: "params (id_request ''1'') ''id'' = Some ''1''"
    and p2: "params (id_request ''2'') ''id'' = Some ''2''"
    by (simp_all add: id_request_def empty_request_def)
  have c1: "id_in example_postgres (JStr ''1'') = Some 1"
    and c2: "id_in example_postgres (JStr ''2'') = Some 2"
    by (simp_all add: example_postgres_def decimal_def)
  have n: "list_all (\<lambda>li. li_listing_id li \<noteq> 2) (listing_images example_db)"
    by (simp add: example_db_def)
  then have none: "\<forall>li \<in> set (listing_images example_db). li_listing_id li \<noteq> 2"
    by (simp add: list_all_iff)
  from get_listing_images_sorted [OF p2 c2, of example_db] none
  have r2: "get_listing_images example_postgres (id_request ''2'') example_db
       = ((200, Json []), log_statement SELECT_images example_db)"
    by auto
  from get_listing_images_sorted [OF p1 c1, of example_db] obtain rows
    where run: "get_listing_images example_postgres (id_request ''1'') example_db
                  = ((200, Json rows), log_statement SELECT_images example_db)"
      and m: "mset rows = mset (map (\<lambda>li. (li_id li, li_image_url li))
                (filter (\<lambda>li. li_listing_id li = 1) (listing_images example_db)))"
      and o: "sorted (map fst rows)"
    by blast
  from run have rows: "rows = [(11, ''a.jpg''), (12, ''b.jpg'')]"
    by (simp add: get_listing_images_example)
  from run m o p1 p2 c1 c2 n r2 show ?thesis
    unfolding rows by blast
qed

text \<open>
  C10. For a listing without images, a single-listing fetch that returns it carries
  \<open>images\<close> as the empty array, and a proximity search that returns it carries
  \<open>images\<close> as null.
\<close>

theorem empty_images_array_versus_null:
  assumes "\<forall>li \<in> set (listing_images d). li_listing_id li \<noteq> i"
  shows "(get_listing P req d = ((200, Json row), d') \<and> l_id (d_listing row) = i
            \<longrightarrow> d_images row = Some [])
       \<and> (listings_nearby P req' d = ((200, Json rows), d'') \<and> nrow \<in> set rows \<and> n_id nrow = i
            \<longrightarrow> n_images nrow = None)"
proof -
  from assms have none: "images_subquery d i = None"
    by (simp add: images_subquery_def json_agg_def filter_empty_conv)
  have fetch: "d_images row = Some []"
    if "get_listing P req d = ((200, Json row), d')" and "l_id (d_listing row) = i"
  proof -
    from that(1) obtain l u where "row = detail_select d l u"
      by (auto simp: get_listing_def query_listing_def Let_def
          split: prod.splits sum.splits list.splits option.splits)
    with that(2) none show ?thesis
      by (simp add: detail_select_def COALESCE_def)
  qed
  have near: "n_images nrow = None"
    if "listings_nearby P req' d = ((200, Json rows), d'')" and "nrow \<in> set rows" and "n_id nrow = i"
  proof -
    from listings_nearby_200 [OF that(1)] that(2) obtain c l where "nrow = nearby_select P d c l"
      by auto
    with that(3) none show ?thesis
      by (simp add: nearby_select_def)
  qed
  from fetch near show ?thesis by blast
qed

lemma get_listing_example:
  "get_listing example_postgres (id_request ''2'') example_db
     = ((200, Json (detail_select example_db (example_listing 2 ''Old town loft'' 3 1 True True)
                      (hd (users example_db)))),
        log_statement SELECT_listing example_db)"
  by (simp add: get_listing_def query_listing_def listings_join_users_def detail_select_def
        Let_def example_defs query_defs)

theorem empty_images_array_versus_null_witness:
  "list_all (\<lambda>li. li_listing_id li \<noteq> 2) (listing_images example_db)
   \<and> get_listing example_postgres (id_request ''2'') example_db
       = ((200, Json (detail_select example_db (example_listing 2 ''Old town loft'' 3 1 True True)
                        (hd (users example_db)))),
          log_statement SELECT_listing example_db)
   \<and> d_images (detail_select example_db (example_listing 2 ''Old town loft'' 3 1 True True)
                 (hd (users example_db))) = Some []
   \<and> listings_nearby example_postgres nearby_request example_db
       = ((200, Json expected_nearby), log_statement SELECT_nearby example_db)
   \<and> n_id (expected_nearby ! 0) = 2
   \<and> n_images (expected_nearby ! 0) = None"
proof -
  let ?row = "detail_select example_db (example_listing 2 ''Old town loft'' 3 1 True True)
                (hd (users example_db))"
  have n: "list_all (\<lambda>li. li_listing_id li \<noteq> 2) (listing_images example_db)"
    by (simp add: example_db_def)
  then have none: "\<forall>li \<in> set (listing_images example_db). li_listing_id li \<noteq> 2"
    by (simp add: list_all_iff)
  have g: "get_listing example_postgres (id_request ''2'') example_db
       = ((200, Json ?row), log_statement SELECT_listing example_db)"
    by (rule get_listing_example)
  have gi: "l_id (d_listing ?row) = 2"
    by (simp add: detail_select_def example_listing_def)
  have h: "listings_nearby example_postgres nearby_request example_db
       = ((200, Json expected_nearby), log_statement SELECT_nearby example_db)"
    by (rule nearby_example)
  have mem: "expected_nearby ! 0 \<in> set expected_nearby"
    by (simp add: expected_nearby_def)
  have ni: "n_id (expected_nearby ! 0) = 2"
    by (simp add: expected_nearby_def nearby_select_def example_listing_def)
  note both = empty_images_array_versus_null [OF none,
    of example_postgres "id_request ''2''" ?row "log_statement SELECT_listing example_db"
       nearby_request expected_nearby "log_statement SELECT_nearby example_db" "expected_nearby ! 0"]
  from both g gi have a: "d_images ?row = Some []" by blast
  from both h mem ni have b: "n_images (expected_nearby ! 0) = None" by blast
  from n g a h ni b show ?thesis by simp
qed

section \<open>Creation followed by a fetch\<close>

lemma truthy_present: "truthy v \<Longrightarrow> \<exists>x. v = Some x \<and> x \<noteq> JNull"
  by (cases v rule: truthy.cases) simp_all

text \<open>
  A 201 answer of the creation carries a listing whose point was built from the
  converted \<^verbatim>\<open>longitude\<close> as X and the converted \<^verbatim>\<open>latitude\<close> as Y.
\<close>

lemma create_listing_201:
  assumes "create_listing P e req d = ((201, Json l), d1)"
  shows "\<exists>b lat lng x y.
      body req = Some b
      \<and> b ''latitude'' = Some lat \<and> b ''longitude'' = Some lng
      \<and> float8_in P lng = Some x \<and> float8_in P lat = Some y
      \<and> geography P (ST_MakePoint x y) = Some (l_location l)"
proof -
  from assms obtain b where b: "body req = Some b"
    by (cases "body req") (auto simp: create_listing_def Let_def split: if_splits)
  from assms b have t: "truthy (b ''latitude'')" "truthy (b ''longitude'')"
    by (auto simp: create_listing_def Let_def split: if_splits)
  from truthy_present [OF t(1)] obtain lat
    where lat: "b ''latitude'' = Some lat" "lat \<noteq> JNull" by blast
  from truthy_present [OF t(2)] obtain lng
    where lng: "b ''longitude'' = Some lng" "lng \<noteq> JNull" by blast
  from assms b
  have ins: "query_insert P
             [b ''host_id'', b ''title'', b ''description'',
              b ''price_kes'', Some lng, Some lat, b ''location_name''] d
           = (Inr l, d1)"
    by (auto simp: create_listing_def Let_def lat lng
        split: if_splits prod.splits sum.splits list.splits)
  obtain bx where bx: "bind_param (float8_in P) (Some lng) = bx" by simp
  obtain by' where by': "bind_param (float8_in P) (Some lat) = by'" by simp
  from ins obtain x y where xy: "bx = Inr (Some x)" "by' = Inr (Some y)"
    and g: "geography P (ST_MakePoint x y) = Some (l_location l)"
    unfolding query_insert_def Let_def list.case bx by'
    by (auto split: sum.splits option.splits if_splits)
  from xy bx by' lat lng have "float8_in P lng = Some x" "float8_in P lat = Some y"
    by (auto simp: bind_param_present split: option.splits)
  with b lat lng g show ?thesis by blast
qed

lemma get_listing_200:
  assumes "get_listing P req d = ((200, Json row), d')"
  shows "d_latitude row = ST_X (l_location (d_listing row))
       \<and> d_longitude row = ST_Y (l_location (d_listing row))"
proof -
  from assms obtain l u where "row = detail_select d l u"
    by (auto simp: get_listing_def query_listing_def Let_def
        split: prod.splits sum.splits list.splits option.splits)
  then show ?thesis by (simp add: detail_select_def)
qed

lemma create_example:
  "create_listing example_postgres example_env (create_request (Some ''s3cret'') create_body) empty_db
     = ((201, Json created_listing), created_db)"
  by (simp add: create_listing_def query_insert_def Let_def example_defs query_defs)

lemma get_created_example:
  "get_listing example_postgres (id_request ''1'') created_db
     = ((200, Json (detail_select created_db created_listing (hd (users created_db)))),
        log_statement SELECT_listing created_db)"
  by (simp add: get_listing_def query_listing_def listings_join_users_def detail_select_def
        Let_def example_defs query_defs)

text \<open>
  C3. Creation followed by a fetch, where the specification asks for a round trip of
  the coordinate pair. When a creation answers 201 and a later single-listing fetch
  returns the created listing, the
  \<open>latitude\<close> of the fetch is the X of the stored point, which the creation built from
  the request's \<^verbatim>\<open>longitude\<close>, and the \<open>longitude\<close> of the fetch is the Y, built from the
  request's \<^verbatim>\<open>latitude\<close>. A listing created with latitude 1.0 and longitude 2.0 is fetched
  with latitude 2.0 and longitude 1.0.
\<close>

theorem create_then_fetch_swaps_coordinates:
  assumes "create_listing P e req d = ((201, Json l), d1)"
    and "get_listing P req' d1 = ((200, Json row), d2)"
    and "d_listing row = l"
  shows "\<exists>b lat lng x y c.
      body req = Some b
      \<and> b ''latitude'' = Some lat \<and> b ''longitude'' = Some lng
      \<and> float8_in P lng = Some x \<and> float8_in P lat = Some y
      \<and> geography P (ST_MakePoint x y) = Some c
      \<and> d_latitude row = ST_X c \<and> d_longitude row = ST_Y c"
proof -
  from create_listing_201 [OF assms(1)] obtain b lat lng x y
    where "body req = Some b" "b ''latitude'' = Some lat" "b ''longitude'' = Some lng"
      "float8_in P lng = Some x" "float8_in P lat = Some y"
      "geography P (ST_MakePoint x y) = Some (l_location l)"
    by blast
  moreover from get_listing_200 [OF assms(2)] assms(3)
  have "d_latitude row = ST_X (l_location l)" "d_longitude row = ST_Y (l_location l)"
    by simp_all
  ultimately show ?thesis by blast
qed

theorem create_then_fetch_swaps_coordinates_witness:
  "body (create_request (Some ''s3cret'') create_body) = Some create_body
   \<and> create_body ''latitude'' = Some (JNum 1)
   \<and> create_body ''longitude'' = Some (JNum 2)
   \<and> create_listing example_postgres example_env (create_request (Some ''s3cret'') create_body) empty_db
       = ((201, Json created_listing), created_db)
   \<and> get_listing example_postgres (id_request ''1'') created_db
       = ((200, Json (detail_select created_db created_listing (hd (users created_db)))),
          log_statement SELECT_listing created_db)
   \<and> d_latitude (detail_select created_db created_listing (hd (users created_db))) = 2
   \<and> d_longitude (detail_select created_db created_listing (hd (users created_db))) = 1"
proof -
  let ?req = "create_request (Some ''s3cret'') create_body"
  let ?row = "detail_select created_db created_listing (hd (users created_db))"
  have bd: "body ?req = Some create_body"
    by (simp add: create_request_def empty_request_def)
  have b: "create_body ''latitude'' = Some (JNum 1)" "create_body ''longitude'' = Some (JNum 2)"
    by (simp_all add: create_body_def)
  have same: "d_listing ?row = created_listing"
    by (simp add: detail_select_def)
  from create_then_fetch_swaps_coordinates [OF create_example get_created_example same]
  obtain b' lat lng x y c
    where "body ?req = Some b'" "b' ''latitude'' = Some lat" "b' ''longitude'' = Some lng"
      and f: "float8_in example_postgres lng = Some x" "float8_in example_postgres lat = Some y"
      and g: "geography example_postgres (ST_MakePoint x y) = Some c"
      and r: "d_latitude ?row = ST_X c" "d_longitude ?row = ST_Y c"
    by blast
  with bd b have "lat = JNum 1" "lng = JNum 2"
    by simp_all
  with f have "x = 2" "y = 1"
    by (simp_all add: example_postgres_def)
  with g have "c = ST_MakePoint 2 1"
    by (simp add: example_postgres_def ST_MakePoint_def)
  with r have "d_latitude ?row = 2" "d_longitude ?row = 1"
    by (simp_all add: ST_MakePoint_def)
  with bd b create_example get_created_example show ?thesis
    by simp
qed

text \<open>
  The earlier copy of the handler labels the decoded point the way the proximity search
  does, and returns the pair as it was sent.
\<close>

lemma get_listing_part_000_after_create:
  "get_listing_part_000 example_postgres (id_request ''1'') created_db
     = ((200, Json (detail_select_part_000 created_listing (hd (users created_db)))),
        log_statement SELECT_listing created_db)
   \<and> p_latitude (detail_select_part_000 created_listing (hd (users created_db))) = 1
   \<and> p_longitude (detail_select_part_000 created_listing (hd (users created_db))) = 2"
  by (simp add: get_listing_part_000_def query_listing_part_000_def listings_join_users_def
        detail_select_part_000_def Let_def example_defs query_defs)

text \<open>The proximity search decodes X as longitude and Y as latitude.\<close>

lemma nearby_decodes_longitude_first:
  assumes "listings_nearby P req d = ((200, Json rows), d')" and "row \<in> set rows"
  shows "\<exists>l \<in> set (listings d).
           n_id row = l_id l \<and> n_longitude row = ST_X (l_location l)
           \<and> n_latitude row = ST_Y (l_location l)"
proof -
  from listings_nearby_200 [OF assms(1)] assms(2)
  obtain c l where "l \<in> set (listings d)" "row = nearby_select P d c l"
    by auto
  then show ?thesis
    by (auto simp: nearby_select_def)
qed

end
